theory Spec2Isabelle
  imports Complex_Main "HOL-Library.Char_ord" "HOL-Library.List_Lexorder" "HOL-Library.Multiset"
begin

section \<open>JavaScript strings\<close>

text \<open>
  A JavaScript string is a sequence of code units; the model keeps the code units below
  256, one \<^typ>\<open>char\<close> each. The helpers below are the built-in string methods the
  validator and the rule engine call.
\<close>

definition isWhiteSpace :: "char \<Rightarrow> bool" where
  \<comment> \<open>what \<open>trim\<close> strips and the regular expression class \<open>\s\<close> accepts: TAB, LF, VT, FF, CR,
      SPACE and NBSP\<close>
  "isWhiteSpace c \<longleftrightarrow> c \<in> {CHR 0x09, CHR 0x0A, CHR 0x0B, CHR 0x0C, CHR 0x0D, CHR 0x20, CHR 0xA0}"

definition trim :: "string \<Rightarrow> string" where
  "trim s = rev (dropWhile isWhiteSpace (rev (dropWhile isWhiteSpace s)))"

fun split_pieces :: "char \<Rightarrow> string \<Rightarrow> string \<times> string list" where
  "split_pieces sep [] = ([], [])"
| "split_pieces sep (c # cs) =
     (let (w, ws) = split_pieces sep cs
      in if c = sep then ([], w # ws) else (c # w, ws))"

definition split :: "char \<Rightarrow> string \<Rightarrow> string list" where
  \<comment> \<open>\<open>s.split(sep)\<close> for a one-character separator; the empty string gives one empty piece\<close>
  "split sep s = (let (w, ws) = split_pieces sep s in w # ws)"

fun join :: "string \<Rightarrow> string list \<Rightarrow> string" where
  "join sep [] = []"
| "join sep [x] = x"
| "join sep (x # y # ys) = x @ sep @ join sep (y # ys)"

fun startsWith :: "string \<Rightarrow> string \<Rightarrow> bool" where
  "startsWith s [] = True"
| "startsWith [] (p # ps) = False"
| "startsWith (c # cs) (p # ps) = (c = p \<and> startsWith cs ps)"

fun str_includes :: "string \<Rightarrow> string \<Rightarrow> bool" where
  "str_includes [] sub = startsWith [] sub"
| "str_includes (c # cs) sub = (startsWith (c # cs) sub \<or> str_includes cs sub)"

definition toLowerChar :: "char \<Rightarrow> char" where
  "toLowerChar c =
     (let n = (of_char c :: nat)
      in if (65 \<le> n \<and> n \<le> 90) \<or> (192 \<le> n \<and> n \<le> 222 \<and> n \<noteq> 215)
         then char_of (n + 32) else c)"

definition toLowerCase :: "string \<Rightarrow> string" where
  "toLowerCase s = map toLowerChar s"

definition isDigit :: "char \<Rightarrow> bool" where
  "isDigit c \<longleftrightarrow> (48 :: nat) \<le> of_char c \<and> (of_char c :: nat) \<le> 57"

definition digitChar :: "nat \<Rightarrow> char" where
  "digitChar d = char_of (48 + d)"

function showNat :: "nat \<Rightarrow> string" where
  "showNat n = (if n < 10 then [digitChar n] else showNat (n div 10) @ [digitChar (n mod 10)])"
  by pat_completeness auto
termination
  by (relation "measure (\<lambda>n. n)") auto

declare showNat.simps [simp del]

definition showInt :: "int \<Rightarrow> string" where
  \<comment> \<open>template interpolation of an integer-valued number\<close>
  "showInt i = (if i < 0 then CHR ''-'' # showNat (nat (- i)) else showNat (nat i))"

fun parseDigits :: "nat \<Rightarrow> string \<Rightarrow> nat" where
  "parseDigits acc [] = acc"
| "parseDigits acc (c # cs) = parseDigits (10 * acc + (of_char c - 48)) cs"

definition parseInt :: "string \<Rightarrow> nat" where
  \<comment> \<open>\<open>parseInt\<close> on a non-empty run of decimal digits, the only argument it gets here\<close>
  "parseInt ds = parseDigits 0 ds"

section \<open>The entity model\<close>

text \<open>
  The interfaces of \<open>@/types\<close>. A \<open>number\<close> field holds an integer, as the data model has
  it. The interfaces are erased when the program runs: a row is whatever object the caller
  hands over. The validator guards or catches every read of a row but two, those of
  \<open>Skills\<close> and of \<open>RequiredSkills\<close>, on which it calls \<open>split\<close> at once. The rows therefore
  leave the type of these two fields open: \<open>Worker\<close> and \<open>Task\<close> are the rows the interfaces
  declare, where the field holds a string; a row as it stands at run time holds a
  \<open>dynamic\<close> value there. Three interfaces share the field names \<open>id\<close>, \<open>type\<close>, \<open>description\<close> and
  \<open>parameters\<close>; the fields of \<open>ValidationError\<close> carry the prefix \<open>v_\<close>, those of
  \<open>BusinessRule\<close> the prefix \<open>r_\<close> and those of \<open>AIRuleRecommendation\<close> the prefix \<open>a_\<close>.
\<close>

record Client =
  ClientID :: string
  ClientName :: string
  PriorityLevel :: int
  RequestedTaskIDs :: string
  GroupTag :: string
  AttributesJSON :: string

datatype dynamic = Str string | Num int | Undefined

record 's WorkerRow =
  WorkerID :: string
  WorkerName :: string
  Skills :: 's
  AvailableSlots :: string
  MaxLoadPerPhase :: int
  WorkerGroup :: string
  QualificationLevel :: int

record 's TaskRow =
  TaskID :: string
  TaskName :: string
  Category :: string
  Duration :: int
  RequiredSkills :: 's
  PreferredPhases :: string
  MaxConcurrent :: int

type_synonym Worker = "string WorkerRow"

type_synonym Task = "string TaskRow"

datatype severity = error | warning

datatype entity = client | worker | task

record ValidationError =
  v_id :: string
  v_type :: severity
  v_message :: string
  v_entity :: entity
  v_entityId :: string
  v_field :: "string option"
  v_suggestion :: "string option"

section \<open>\<open>JSON.parse\<close>\<close>

text \<open>
  The validator only asks whether a text parses, whether the value is an array, how long
  the array is and whether its elements are numbers. The parsed value therefore keeps a
  number as its lexeme and a string as its undecoded body. A text that \<open>JSON.parse\<close>
  rejects with a \<open>SyntaxError\<close> is \<open>Inl SyntaxError\<close>.
\<close>

datatype json =
  JNull | JBool bool | JNumber string | JString string
  | JArray "json list" | JObject "(string \<times> json) list"

datatype token = TLBracket | TRBracket | TLBrace | TRBrace | TComma | TColon | TLit json

datatype exn = SyntaxError | TypeError | RangeError

definition isJsonWs :: "char \<Rightarrow> bool" where
  "isJsonWs c \<longleftrightarrow> c \<in> {CHR 0x20, CHR 0x09, CHR 0x0A, CHR 0x0D}"

definition isHex :: "char \<Rightarrow> bool" where
  "isHex c \<longleftrightarrow> isDigit c \<or> c \<in> set ''abcdefABCDEF''"

text \<open>The body of a string literal, after the opening quote: the body and what follows
  the closing quote.\<close>

fun lexString :: "string \<Rightarrow> (string \<times> string) option" where
  "lexString [] = None"
| "lexString (c # cs) =
     (if c = CHR 0x22 then Some ([], cs)
      else if c = CHR 0x5C then
        (case cs of
           [] \<Rightarrow> None
         | e # cs' \<Rightarrow>
             if e \<in> set [CHR 0x22, CHR 0x5C, CHR ''/'', CHR ''b'', CHR ''f'', CHR ''n'', CHR ''r'', CHR ''t'']
             then map_option (\<lambda>(w, r). (c # e # w, r)) (lexString cs')
             else if e = CHR ''u'' then
               (case cs' of
                  h1 # h2 # h3 # h4 # cs'' \<Rightarrow>
                    if isHex h1 \<and> isHex h2 \<and> isHex h3 \<and> isHex h4
                    then map_option (\<lambda>(w, r). (c # e # h1 # h2 # h3 # h4 # w, r)) (lexString cs'')
                    else None
                | _ \<Rightarrow> None)
             else None)
      else if (of_char c :: nat) < 32 then None
      else map_option (\<lambda>(w, r). (c # w, r)) (lexString cs))"

text \<open>A number: optional minus, integer part without leading zeros, optional fraction,
  optional exponent. A dot or an exponent letter that no digit follows is left in the
  rest, where it starts no token.\<close>

definition lexFraction :: "string \<Rightarrow> string \<times> string" where
  "lexFraction s =
     (case s of
        p # d # r \<Rightarrow>
          if p = CHR ''.'' \<and> isDigit d then (p # d # takeWhile isDigit r, dropWhile isDigit r)
          else ([], s)
      | _ \<Rightarrow> ([], s))"

definition lexExponent :: "string \<Rightarrow> string \<times> string" where
  "lexExponent s =
     (case s of
        e # d # r \<Rightarrow>
          if e \<in> set ''eE'' \<and> isDigit d then (e # d # takeWhile isDigit r, dropWhile isDigit r)
          else if e \<in> set ''eE'' \<and> d \<in> set ''+-'' then
            (case r of
               d' # r' \<Rightarrow>
                 if isDigit d' then (e # d # d' # takeWhile isDigit r', dropWhile isDigit r')
                 else ([], s)
             | [] \<Rightarrow> ([], s))
          else ([], s)
      | _ \<Rightarrow> ([], s))"

definition lexInteger :: "string \<Rightarrow> (string \<times> string) option" where
  "lexInteger s =
     (case s of
        [] \<Rightarrow> None
      | d # r \<Rightarrow>
          if d = CHR ''0'' then Some ([d], r)
          else if isDigit d then Some (d # takeWhile isDigit r, dropWhile isDigit r)
          else None)"

definition lexNumber :: "string \<Rightarrow> (string \<times> string) option" where
  "lexNumber s =
     (let (sign, s1) = (case s of c # cs \<Rightarrow> if c = CHR ''-'' then ([c], cs) else ([], s) | [] \<Rightarrow> ([], s))
      in case lexInteger s1 of
           None \<Rightarrow> None
         | Some (ip, s2) \<Rightarrow>
             let (fp, s3) = lexFraction s2; (ep, s4) = lexExponent s3
             in Some (sign @ ip @ fp @ ep, s4))"

text \<open>One token from the front of a text that starts with no white space.\<close>

definition lexToken :: "string \<Rightarrow> (token \<times> string) option" where
  "lexToken s =
     (case s of
        [] \<Rightarrow> None
      | c # cs \<Rightarrow>
          if c = CHR ''['' then Some (TLBracket, cs)
          else if c = CHR '']'' then Some (TRBracket, cs)
          else if c = CHR ''{'' then Some (TLBrace, cs)
          else if c = CHR ''}'' then Some (TRBrace, cs)
          else if c = CHR '','' then Some (TComma, cs)
          else if c = CHR '':'' then Some (TColon, cs)
          else if c = CHR 0x22 then map_option (\<lambda>(w, r). (TLit (JString w), r)) (lexString cs)
          else if startsWith s ''true'' then Some (TLit (JBool True), drop 4 s)
          else if startsWith s ''false'' then Some (TLit (JBool False), drop 5 s)
          else if startsWith s ''null'' then Some (TLit JNull, drop 4 s)
          else map_option (\<lambda>(w, r). (TLit (JNumber w), r)) (lexNumber s))"

lemma lexString_shorter: "lexString s = Some (w, r) \<Longrightarrow> length r < length s"
proof (induction s arbitrary: w r rule: lexString.induct)
  case 1
  then show ?case by simp
next
  case (2 c cs)
  show ?case
  proof (cases "c = CHR 0x22")
    case True
    with "2.prems" show ?thesis by simp
  next
    case nq: False
    show ?thesis
    proof (cases "c = CHR 0x5C")
      case bs: True
      show ?thesis
      proof (cases cs)
        case Nil
        with "2.prems" nq bs show ?thesis by simp
      next
        case (Cons e cs')
        show ?thesis
        proof (cases "e \<in> set [CHR 0x22, CHR 0x5C, CHR ''/'', CHR ''b'', CHR ''f'', CHR ''n'', CHR ''r'', CHR ''t'']")
          case esc: True
          with "2.prems" nq bs Cons obtain w' where "lexString cs' = Some (w', r)"
            by (auto simp del: set_simps)
          from "2.IH"(1) [OF nq bs Cons esc this] show ?thesis using Cons by simp
        next
          case nesc: False
          with "2.prems" nq bs Cons obtain h1 h2 h3 h4 cs'' w'
            where u: "e = CHR ''u''" and c': "cs' = h1 # h2 # h3 # h4 # cs''"
              and hx: "isHex h1 \<and> isHex h2 \<and> isHex h3 \<and> isHex h4"
              and l: "lexString cs'' = Some (w', r)"
            by (auto simp del: set_simps split: if_splits list.splits)
          from "2.IH"(2) [OF nq bs Cons nesc u c' refl refl refl hx l] show ?thesis using Cons c' by simp
        qed
      qed
    next
      case nbs: False
      with "2.prems" nq obtain w' where c32: "\<not> (of_char c :: nat) < 32" and "lexString cs = Some (w', r)"
        by (auto split: if_splits)
      from "2.IH"(3) [OF nq nbs c32 this(2)] show ?thesis by simp
    qed
  qed
qed

lemma lexNumber_shorter: "lexNumber s = Some (w, r) \<Longrightarrow> length r < length s"
proof -
  have drop_le: "length (dropWhile isDigit xs) \<le> length xs" for xs
    by (rule length_dropWhile_le)
  have frac: "length (snd (lexFraction xs)) \<le> length xs" for xs
    using drop_le by (auto simp: lexFraction_def le_SucI split: list.splits)
  have expo: "length (snd (lexExponent xs)) \<le> length xs" for xs
    using drop_le by (auto simp: lexExponent_def le_SucI split: list.splits)
  have intg: "length r' < length xs" if "lexInteger xs = Some (w', r')" for xs w' r'
    using that drop_le by (auto simp: lexInteger_def less_Suc_eq_le split: list.splits if_splits)
  assume a: "lexNumber s = Some (w, r)"
  define s1 where "s1 = (case s of c # cs \<Rightarrow> if c = CHR ''-'' then cs else s | [] \<Rightarrow> s)"
  have s1: "length s1 \<le> length s" by (auto simp: s1_def split: list.splits)
  from a obtain ip s2 where i: "lexInteger s1 = Some (ip, s2)"
    and r: "r = snd (lexExponent (snd (lexFraction s2)))"
    by (auto simp: lexNumber_def s1_def Let_def split: list.splits if_splits option.splits prod.splits)
  from intg [OF i] have "length s2 < length s1" .
  moreover have "length r \<le> length s2"
    unfolding r using expo [of "snd (lexFraction s2)"] frac [of s2] by linarith
  ultimately show ?thesis using s1 by linarith
qed

lemma lexToken_shorter: "lexToken s = Some (t, r) \<Longrightarrow> length r < length s"
  by (auto simp: lexToken_def split: list.splits if_splits
      dest: lexString_shorter lexNumber_shorter)

function tokenize :: "string \<Rightarrow> token list option" where
  "tokenize s =
     (case dropWhile isJsonWs s of
        [] \<Rightarrow> Some []
      | c # cs \<Rightarrow>
          (case lexToken (c # cs) of
             None \<Rightarrow> None
           | Some (t, r) \<Rightarrow> map_option ((#) t) (tokenize r)))"
  by pat_completeness auto
termination
proof (relation "measure length")
  show "wf (measure length)" by simp
next
  fix s :: string and c cs x t r
  assume d: "dropWhile isJsonWs s = c # cs" and l: "lexToken (c # cs) = Some x" and x: "(t, r) = x"
  have "length r < length (c # cs)" using l x lexToken_shorter [of "c # cs" t r] by simp
  moreover have "length (c # cs) \<le> length s" using length_dropWhile_le [of isJsonWs s] d by simp
  ultimately show "(r, s) \<in> measure length" by simp
qed

declare tokenize.simps [simp del]

text \<open>The parser runs over the tokens with a stack of the open arrays and objects.\<close>

datatype frame =
  FArr "json list" | FObj "(string \<times> json) list" | FObjV "(string \<times> json) list" string

datatype expect = EValue | EValueOrEnd | EKeyOrEnd | EKey | EColon | ECommaOrEnd | EDone json

fun complete :: "json \<Rightarrow> frame list \<Rightarrow> (expect \<times> frame list) option" where
  "complete v [] = Some (EDone v, [])"
| "complete v (FArr items # st) = Some (ECommaOrEnd, FArr (v # items) # st)"
| "complete v (FObjV ms k # st) = Some (ECommaOrEnd, FObj ((k, v) # ms) # st)"
| "complete v (FObj ms # st) = None"

fun startValue :: "token \<Rightarrow> frame list \<Rightarrow> (expect \<times> frame list) option" where
  "startValue (TLit v) st = complete v st"
| "startValue TLBracket st = Some (EValueOrEnd, FArr [] # st)"
| "startValue TLBrace st = Some (EKeyOrEnd, FObj [] # st)"
| "startValue _ st = None"

fun closeFrame :: "token \<Rightarrow> frame list \<Rightarrow> (expect \<times> frame list) option" where
  "closeFrame TRBracket (FArr items # st) = complete (JArray (rev items)) st"
| "closeFrame TRBrace (FObj ms # st) = complete (JObject (rev ms)) st"
| "closeFrame _ _ = None"

fun startKey :: "token \<Rightarrow> frame list \<Rightarrow> (expect \<times> frame list) option" where
  "startKey (TLit (JString k)) (FObj ms # st) = Some (EColon, FObjV ms k # st)"
| "startKey _ _ = None"

fun parseStep :: "token \<Rightarrow> expect \<times> frame list \<Rightarrow> (expect \<times> frame list) option" where
  "parseStep t (EValue, st) = startValue t st"
| "parseStep t (EValueOrEnd, st) = (if t = TRBracket then closeFrame t st else startValue t st)"
| "parseStep t (EKeyOrEnd, st) = (if t = TRBrace then closeFrame t st else startKey t st)"
| "parseStep t (EKey, st) = startKey t st"
| "parseStep t (EColon, st) = (if t = TColon then Some (EValue, st) else None)"
| "parseStep t (ECommaOrEnd, st) =
     (if t = TComma then
        (case st of
           FArr items # _ \<Rightarrow> Some (EValue, st)
         | FObj ms # _ \<Rightarrow> Some (EKey, st)
         | _ \<Rightarrow> None)
      else closeFrame t st)"
| "parseStep t (EDone v, st) = None"

fun parseTokens :: "token list \<Rightarrow> expect \<times> frame list \<Rightarrow> json option" where
  "parseTokens [] (e, st) = (case e of EDone v \<Rightarrow> Some v | _ \<Rightarrow> None)"
| "parseTokens (t # ts) cfg =
     (case parseStep t cfg of None \<Rightarrow> None | Some cfg' \<Rightarrow> parseTokens ts cfg')"

definition JSON_parse :: "string \<Rightarrow> exn + json" where
  "JSON_parse s =
     (case tokenize s of
        None \<Rightarrow> Inl SyntaxError
      | Some ts \<Rightarrow>
          (case parseTokens ts (EValue, []) of
             None \<Rightarrow> Inl SyntaxError
           | Some v \<Rightarrow> Inr v))"

section \<open>The validator (\<open>src/lib/validation.ts\<close>)\<close>

text \<open>
  A check builds its array with \<open>forEach\<close> and \<open>push\<close>; here the callback returns what it
  pushes and the check concatenates. A check that calls \<open>JSON.parse\<close> can see an exception:
  its callback returns \<open>exn + errors\<close>, \<open>try_catch\<close> is the \<open>try { ... } catch { ... }\<close>
  block, and \<open>forEach\<close> stops at an exception that leaves the callback.
\<close>

definition try_catch :: "exn + 'a \<Rightarrow> (exn \<Rightarrow> exn + 'a) \<Rightarrow> exn + 'a" where
  "try_catch body handler = (case body of Inl e \<Rightarrow> handler e | Inr v \<Rightarrow> Inr v)"

fun forEach :: "('a \<Rightarrow> exn + 'e list) \<Rightarrow> 'a list \<Rightarrow> exn + 'e list" where
  "forEach f [] = Inr []"
| "forEach f (x # xs) =
     (case f x of
        Inl e \<Rightarrow> Inl e
      | Inr pushed \<Rightarrow>
          (case forEach f xs of
             Inl e \<Rightarrow> Inl e
           | Inr rest \<Rightarrow> Inr (pushed @ rest)))"

definition requiredClientFields :: "string list" where
  "requiredClientFields = [''ClientID'', ''ClientName'', ''PriorityLevel'']"

definition clientFieldMissing :: "Client \<Rightarrow> string \<Rightarrow> bool" where
  \<comment> \<open>\<open>!client[field] || client[field] === ''\<close>: an empty string, or the number 0\<close>
  "clientFieldMissing c fld =
     (if fld = ''ClientID'' then ClientID c = []
      else if fld = ''ClientName'' then ClientName c = []
      else if fld = ''PriorityLevel'' then PriorityLevel c = 0
      else True)"

definition validateMissingColumns :: "Client list \<Rightarrow> ValidationError list" where
  "validateMissingColumns clients =
     concat (map (\<lambda>c.
       concat (map (\<lambda>fld.
         if clientFieldMissing c fld then
           [\<lparr>v_id = ''missing-'' @ ClientID c @ ''-'' @ fld,
             v_type = error,
             v_message = ''Missing required field: '' @ fld,
             v_entity = client,
             v_entityId = ClientID c,
             v_field = Some fld,
             v_suggestion = Some (''Please provide a value for '' @ fld)\<rparr>]
         else []) requiredClientFields)) clients)"

text \<open>One of the three loops of \<open>validateDuplicateIDs\<close>: \<open>seen\<close> is the \<open>Set\<close> of the IDs
  met so far, \<open>mk\<close> builds the error of the collection.\<close>

fun duplicateScan :: "(string \<Rightarrow> ValidationError) \<Rightarrow> string list \<Rightarrow> string set \<Rightarrow> ValidationError list" where
  "duplicateScan mk [] seen = []"
| "duplicateScan mk (i # ids) seen =
     (if i \<in> seen then [mk i] else []) @ duplicateScan mk ids (insert i seen)"

definition duplicateClient :: "string \<Rightarrow> ValidationError" where
  "duplicateClient i =
     \<lparr>v_id = ''duplicate-client-'' @ i, v_type = error,
      v_message = ''Duplicate ClientID: '' @ i, v_entity = client, v_entityId = i,
      v_field = None, v_suggestion = Some ''Ensure all ClientIDs are unique''\<rparr>"

definition duplicateWorker :: "string \<Rightarrow> ValidationError" where
  "duplicateWorker i =
     \<lparr>v_id = ''duplicate-worker-'' @ i, v_type = error,
      v_message = ''Duplicate WorkerID: '' @ i, v_entity = worker, v_entityId = i,
      v_field = None, v_suggestion = Some ''Ensure all WorkerIDs are unique''\<rparr>"

definition duplicateTask :: "string \<Rightarrow> ValidationError" where
  "duplicateTask i =
     \<lparr>v_id = ''duplicate-task-'' @ i, v_type = error,
      v_message = ''Duplicate TaskID: '' @ i, v_entity = task, v_entityId = i,
      v_field = None, v_suggestion = Some ''Ensure all TaskIDs are unique''\<rparr>"

definition validateDuplicateIDs :: "Client list \<Rightarrow> 's WorkerRow list \<Rightarrow> 't TaskRow list \<Rightarrow> ValidationError list" where
  "validateDuplicateIDs clients workers tasks =
     duplicateScan duplicateClient (map ClientID clients) {}
     @ duplicateScan duplicateWorker (map WorkerID workers) {}
     @ duplicateScan duplicateTask (map TaskID tasks) {}"

definition isNumber :: "json \<Rightarrow> bool" where
  "isNumber v = (case v of JNumber _ \<Rightarrow> True | _ \<Rightarrow> False)"

definition isNumberArray :: "json \<Rightarrow> bool" where
  \<comment> \<open>\<open>Array.isArray(slots) && slots.every(slot => typeof slot === 'number')\<close>\<close>
  "isNumberArray v = (case v of JArray xs \<Rightarrow> list_all isNumber xs | _ \<Rightarrow> False)"

definition malformedSlots :: "'s WorkerRow \<Rightarrow> ValidationError" where
  "malformedSlots w =
     \<lparr>v_id = ''malformed-slots-'' @ WorkerID w, v_type = error,
      v_message = ''Malformed AvailableSlots: '' @ AvailableSlots w,
      v_entity = worker, v_entityId = WorkerID w, v_field = Some ''AvailableSlots'',
      v_suggestion = Some ''AvailableSlots should be an array of numbers, e.g., [1,2,3]''\<rparr>"

definition invalidSlots :: "'s WorkerRow \<Rightarrow> ValidationError" where
  "invalidSlots w =
     \<lparr>v_id = ''invalid-slots-'' @ WorkerID w, v_type = error,
      v_message = ''Invalid AvailableSlots format: '' @ AvailableSlots w,
      v_entity = worker, v_entityId = WorkerID w, v_field = Some ''AvailableSlots'',
      v_suggestion = Some ''AvailableSlots should be an array of numbers, e.g., [1,2,3]''\<rparr>"

definition malformedListsOf :: "'s WorkerRow \<Rightarrow> exn + ValidationError list" where
  "malformedListsOf w =
     try_catch
       (case JSON_parse (AvailableSlots w) of
          Inl e \<Rightarrow> Inl e
        | Inr slots \<Rightarrow> Inr (if \<not> isNumberArray slots then [malformedSlots w] else []))
       (\<lambda>_. Inr [invalidSlots w])"

definition validateMalformedLists :: "'s WorkerRow list \<Rightarrow> exn + ValidationError list" where
  "validateMalformedLists workers = forEach malformedListsOf workers"

definition validateOutOfRangeValues :: "Client list \<Rightarrow> 't TaskRow list \<Rightarrow> ValidationError list" where
  "validateOutOfRangeValues clients tasks =
     concat (map (\<lambda>c.
       if PriorityLevel c < 1 \<or> PriorityLevel c > 5 then
         [\<lparr>v_id = ''priority-range-'' @ ClientID c, v_type = error,
           v_message = ''PriorityLevel out of range: '' @ showInt (PriorityLevel c),
           v_entity = client, v_entityId = ClientID c, v_field = Some ''PriorityLevel'',
           v_suggestion = Some ''PriorityLevel must be between 1 and 5''\<rparr>]
       else []) clients)
     @ concat (map (\<lambda>t.
       if Duration t < 1 then
         [\<lparr>v_id = ''duration-range-'' @ TaskID t, v_type = error,
           v_message = ''Duration must be at least 1: '' @ showInt (Duration t),
           v_entity = task, v_entityId = TaskID t, v_field = Some ''Duration'',
           v_suggestion = Some ''Duration should be a positive number''\<rparr>]
       else []) tasks)"

definition brokenJSON :: "Client \<Rightarrow> ValidationError" where
  "brokenJSON c =
     \<lparr>v_id = ''broken-json-'' @ ClientID c, v_type = error,
      v_message = ''Invalid JSON in AttributesJSON'',
      v_entity = client, v_entityId = ClientID c, v_field = Some ''AttributesJSON'',
      v_suggestion = Some ''Please provide valid JSON format''\<rparr>"

definition brokenJSONOf :: "Client \<Rightarrow> exn + ValidationError list" where
  "brokenJSONOf c =
     (if AttributesJSON c \<noteq> [] \<and> trim (AttributesJSON c) \<noteq> [] then
        try_catch
          (case JSON_parse (AttributesJSON c) of Inl e \<Rightarrow> Inl e | Inr _ \<Rightarrow> Inr [])
          (\<lambda>_. Inr [brokenJSON c])
      else Inr [])"

definition validateBrokenJSON :: "Client list \<Rightarrow> exn + ValidationError list" where
  "validateBrokenJSON clients = forEach brokenJSONOf clients"

definition splitTrim :: "string \<Rightarrow> string list" where
  \<comment> \<open>\<open>s.split(',').map(x => x.trim())\<close>\<close>
  "splitTrim s = map trim (split CHR '','' s)"

definition unknownTask :: "Client \<Rightarrow> string \<Rightarrow> ValidationError" where
  "unknownTask c taskId =
     \<lparr>v_id = ''unknown-task-'' @ ClientID c @ ''-'' @ taskId, v_type = error,
      v_message = ''Unknown TaskID referenced: '' @ taskId,
      v_entity = client, v_entityId = ClientID c, v_field = Some ''RequestedTaskIDs'',
      v_suggestion = Some (''TaskID '' @ taskId @ '' does not exist in tasks data'')\<rparr>"

definition unknownReferencesOf :: "string set \<Rightarrow> Client \<Rightarrow> ValidationError list" where
  "unknownReferencesOf taskIds c =
     (if RequestedTaskIDs c \<noteq> [] then
        concat (map (\<lambda>taskId. if taskId \<notin> taskIds then [unknownTask c taskId] else [])
          (splitTrim (RequestedTaskIDs c)))
      else [])"

definition validateUnknownReferences :: "Client list \<Rightarrow> 't TaskRow list \<Rightarrow> ValidationError list" where
  "validateUnknownReferences clients tasks =
     (let taskIds = set (map TaskID tasks)
      in concat (map (unknownReferencesOf taskIds) clients))"

definition validateCircularCoRuns :: "ValidationError list" where
  "validateCircularCoRuns = []"

definition overloadedWarning :: "'s WorkerRow \<Rightarrow> nat \<Rightarrow> ValidationError" where
  "overloadedWarning w n =
     \<lparr>v_id = ''overloaded-'' @ WorkerID w, v_type = warning,
      v_message = ''Worker has more MaxLoadPerPhase ('' @ showInt (MaxLoadPerPhase w)
        @ '') than AvailableSlots ('' @ showNat n @ '')'',
      v_entity = worker, v_entityId = WorkerID w, v_field = None,
      v_suggestion = Some ''Consider reducing MaxLoadPerPhase or increasing AvailableSlots''\<rparr>"

definition overloadedOf :: "'s WorkerRow \<Rightarrow> exn + ValidationError list" where
  "overloadedOf w =
     try_catch
       (case JSON_parse (AvailableSlots w) of
          Inl e \<Rightarrow> Inl e
        | Inr slots \<Rightarrow>
            Inr (case slots of
                   JArray xs \<Rightarrow>
                     if int (length xs) < MaxLoadPerPhase w then [overloadedWarning w (length xs)] else []
                 | _ \<Rightarrow> []))
       (\<lambda>_. Inr [])"

definition validateOverloadedWorkers :: "'s WorkerRow list \<Rightarrow> exn + ValidationError list" where
  "validateOverloadedWorkers workers = forEach overloadedOf workers"

definition validatePhaseSlotSaturation :: "ValidationError list" where
  "validatePhaseSlotSaturation = []"

definition validateSkillCoverage :: "Worker list \<Rightarrow> Task list \<Rightarrow> ValidationError list" where
  "validateSkillCoverage workers tasks =
     (let workerSkills = \<Union> (set (map (\<lambda>w. set (splitTrim (Skills w))) workers))
      in concat (map (\<lambda>t.
           concat (map (\<lambda>skill.
             if skill \<notin> workerSkills then
               [\<lparr>v_id = ''skill-coverage-'' @ TaskID t @ ''-'' @ skill, v_type = error,
                 v_message = ''No worker has required skill: '' @ skill,
                 v_entity = task, v_entityId = TaskID t, v_field = Some ''RequiredSkills'',
                 v_suggestion = Some (''Add workers with skill '' @ [CHR 0x22] @ skill @ [CHR 0x22]
                   @ '' or remove this skill requirement'')\<rparr>]
             else []) (splitTrim (RequiredSkills t)))) tasks))"

definition qualifiedWorkers :: "Worker list \<Rightarrow> Task \<Rightarrow> Worker list" where
  "qualifiedWorkers workers t =
     filter (\<lambda>w. list_all (\<lambda>skill. skill \<in> set (splitTrim (Skills w)))
                    (splitTrim (RequiredSkills t))) workers"

definition validateMaxConcurrency :: "Worker list \<Rightarrow> Task list \<Rightarrow> ValidationError list" where
  "validateMaxConcurrency workers tasks =
     concat (map (\<lambda>t.
       let n = length (qualifiedWorkers workers t)
       in if MaxConcurrent t > int n then
            [\<lparr>v_id = ''max-concurrent-'' @ TaskID t, v_type = warning,
              v_message = ''MaxConcurrent ('' @ showInt (MaxConcurrent t)
                @ '') exceeds qualified workers ('' @ showNat n @ '')'',
              v_entity = task, v_entityId = TaskID t, v_field = Some ''MaxConcurrent'',
              v_suggestion = Some (''Consider reducing MaxConcurrent to '' @ showNat n
                @ '' or adding more qualified workers'')\<rparr>]
          else []) tasks)"

definition validateConflictingRules :: "ValidationError list" where
  "validateConflictingRules = []"

text \<open>
  \<open>errors.push(...check)\<close>: an exception of the check leaves \<open>validateAll\<close>. This is
  \<open>validateAll\<close> on rows of the interfaces and for checks whose results the engine can
  spread into one call; \<open>validateAllDyn\<close> below is \<open>validateAll\<close> without the two
  restrictions.
\<close>

definition pushAll :: "exn + 'e list \<Rightarrow> exn + 'e list \<Rightarrow> exn + 'e list" where
  "pushAll errors check =
     (case errors of
        Inl e \<Rightarrow> Inl e
      | Inr es \<Rightarrow> (case check of Inl e \<Rightarrow> Inl e | Inr pushed \<Rightarrow> Inr (es @ pushed)))"

definition validateAll :: "Client list \<Rightarrow> Worker list \<Rightarrow> Task list \<Rightarrow> exn + ValidationError list" where
  "validateAll clients workers tasks =
     foldl pushAll (Inr [])
       [Inr (validateMissingColumns clients),
        Inr (validateDuplicateIDs clients workers tasks),
        validateMalformedLists workers,
        Inr (validateOutOfRangeValues clients tasks),
        validateBrokenJSON clients,
        Inr (validateUnknownReferences clients tasks),
        Inr validateCircularCoRuns,
        validateOverloadedWorkers workers,
        Inr validatePhaseSlotSaturation,
        Inr (validateSkillCoverage workers tasks),
        Inr (validateMaxConcurrency workers tasks),
        Inr validateConflictingRules]"

text \<open>What \<open>validateAll\<close> returns when no check ends in an exception.\<close>

definition allErrors :: "Client list \<Rightarrow> Worker list \<Rightarrow> Task list \<Rightarrow> ValidationError list" where
  "allErrors cs ws ts =
     validateMissingColumns cs
     @ validateDuplicateIDs cs ws ts
     @ concat (map (\<lambda>w. projr (malformedListsOf w)) ws)
     @ validateOutOfRangeValues cs ts
     @ concat (map (\<lambda>c. projr (brokenJSONOf c)) cs)
     @ validateUnknownReferences cs ts
     @ concat (map (\<lambda>w. projr (overloadedOf w)) ws)
     @ validateSkillCoverage ws ts
     @ validateMaxConcurrency ws ts"

subsection \<open>The validator on rows as they stand at run time\<close>

text \<open>
  \<open>x.split(',').map(skill => skill.trim())\<close> for the value \<open>x\<close> that a row holds: a string is
  split; \<open>undefined\<close> has no properties and a number has no method \<open>split\<close>, so the call
  throws a \<open>TypeError\<close>. Neither \<open>validateSkillCoverage\<close> nor \<open>validateMaxConcurrency\<close> stands
  inside a \<open>try\<close>.
\<close>

definition splitSkills :: "dynamic \<Rightarrow> exn + string list" where
  "splitSkills x =
     (case x of Str s \<Rightarrow> Inr (splitTrim s) | Num _ \<Rightarrow> Inl TypeError | Undefined \<Rightarrow> Inl TypeError)"

text \<open>The first loop of \<open>validateSkillCoverage\<close>: \<open>workerSkills\<close> is the \<open>Set\<close> filled so far.\<close>

fun addWorkerSkills :: "dynamic WorkerRow list \<Rightarrow> string set \<Rightarrow> exn + string set" where
  "addWorkerSkills [] workerSkills = Inr workerSkills"
| "addWorkerSkills (w # ws) workerSkills =
     (case splitSkills (Skills w) of
        Inl e \<Rightarrow> Inl e
      | Inr skills \<Rightarrow> addWorkerSkills ws (workerSkills \<union> set skills))"

definition skillCoverageOf :: "string set \<Rightarrow> dynamic TaskRow \<Rightarrow> exn + ValidationError list" where
  "skillCoverageOf workerSkills t =
     (case splitSkills (RequiredSkills t) of
        Inl e \<Rightarrow> Inl e
      | Inr requiredSkills \<Rightarrow>
          Inr (concat (map (\<lambda>skill.
            if skill \<notin> workerSkills then
              [\<lparr>v_id = ''skill-coverage-'' @ TaskID t @ ''-'' @ skill, v_type = error,
                v_message = ''No worker has required skill: '' @ skill,
                v_entity = task, v_entityId = TaskID t, v_field = Some ''RequiredSkills'',
                v_suggestion = Some (''Add workers with skill '' @ [CHR 0x22] @ skill @ [CHR 0x22]
                  @ '' or remove this skill requirement'')\<rparr>]
            else []) requiredSkills)))"

definition validateSkillCoverageDyn ::
  "dynamic WorkerRow list \<Rightarrow> dynamic TaskRow list \<Rightarrow> exn + ValidationError list" where
  "validateSkillCoverageDyn workers tasks =
     (case addWorkerSkills workers {} of
        Inl e \<Rightarrow> Inl e
      | Inr workerSkills \<Rightarrow> forEach (skillCoverageOf workerSkills) tasks)"

text \<open>The callback of \<open>this.workers.filter\<close> in \<open>validateMaxConcurrency\<close> returns the worker
  it keeps; \<open>forEach\<close> then is the filter that stops at an exception.\<close>

definition qualifiedWorkersDyn ::
  "dynamic WorkerRow list \<Rightarrow> string list \<Rightarrow> exn + dynamic WorkerRow list" where
  "qualifiedWorkersDyn workers requiredSkills =
     forEach (\<lambda>w.
       case splitSkills (Skills w) of
         Inl e \<Rightarrow> Inl e
       | Inr workerSkills \<Rightarrow>
           Inr (if list_all (\<lambda>skill. skill \<in> set workerSkills) requiredSkills then [w] else []))
       workers"

definition maxConcurrencyOf :: "dynamic WorkerRow list \<Rightarrow> dynamic TaskRow \<Rightarrow> exn + ValidationError list" where
  "maxConcurrencyOf workers t =
     (case splitSkills (RequiredSkills t) of
        Inl e \<Rightarrow> Inl e
      | Inr requiredSkills \<Rightarrow>
          (case qualifiedWorkersDyn workers requiredSkills of
             Inl e \<Rightarrow> Inl e
           | Inr qualified \<Rightarrow>
               Inr (let n = length qualified
                    in if MaxConcurrent t > int n then
                         [\<lparr>v_id = ''max-concurrent-'' @ TaskID t, v_type = warning,
                           v_message = ''MaxConcurrent ('' @ showInt (MaxConcurrent t)
                             @ '') exceeds qualified workers ('' @ showNat n @ '')'',
                           v_entity = task, v_entityId = TaskID t, v_field = Some ''MaxConcurrent'',
                           v_suggestion = Some (''Consider reducing MaxConcurrent to '' @ showNat n
                             @ '' or adding more qualified workers'')\<rparr>]
                       else [])))"

definition validateMaxConcurrencyDyn ::
  "dynamic WorkerRow list \<Rightarrow> dynamic TaskRow list \<Rightarrow> exn + ValidationError list" where
  "validateMaxConcurrencyDyn workers tasks = forEach (maxConcurrencyOf workers) tasks"

text \<open>
  \<open>errors.push(...check)\<close> hands every element of \<open>check\<close> to \<open>push\<close> as one argument of one
  call. An engine takes only so many arguments in a call, a number \<open>maxArguments\<close> of its
  own, and throws a \<open>RangeError\<close> for more.
\<close>

definition pushSpread :: "nat \<Rightarrow> exn + 'e list \<Rightarrow> exn + 'e list \<Rightarrow> exn + 'e list" where
  "pushSpread maxArguments errors check =
     (case errors of
        Inl e \<Rightarrow> Inl e
      | Inr es \<Rightarrow>
          (case check of
             Inl e \<Rightarrow> Inl e
           | Inr pushed \<Rightarrow>
               if maxArguments < length pushed then Inl RangeError else Inr (es @ pushed)))"

definition validateAllDyn ::
  "nat \<Rightarrow> Client list \<Rightarrow> dynamic WorkerRow list \<Rightarrow> dynamic TaskRow list \<Rightarrow> exn + ValidationError list" where
  "validateAllDyn maxArguments clients workers tasks =
     foldl (pushSpread maxArguments) (Inr [])
       [Inr (validateMissingColumns clients),
        Inr (validateDuplicateIDs clients workers tasks),
        validateMalformedLists workers,
        Inr (validateOutOfRangeValues clients tasks),
        validateBrokenJSON clients,
        Inr (validateUnknownReferences clients tasks),
        Inr validateCircularCoRuns,
        validateOverloadedWorkers workers,
        Inr validatePhaseSlotSaturation,
        validateSkillCoverageDyn workers tasks,
        validateMaxConcurrencyDyn workers tasks,
        Inr validateConflictingRules]"

text \<open>A row of the interface as it stands at run time.\<close>

definition workerRow :: "Worker \<Rightarrow> dynamic WorkerRow" where
  "workerRow w =
     \<lparr>WorkerID = WorkerID w, WorkerName = WorkerName w, Skills = Str (Skills w),
      AvailableSlots = AvailableSlots w, MaxLoadPerPhase = MaxLoadPerPhase w,
      WorkerGroup = WorkerGroup w, QualificationLevel = QualificationLevel w\<rparr>"

definition taskRow :: "Task \<Rightarrow> dynamic TaskRow" where
  "taskRow t =
     \<lparr>TaskID = TaskID t, TaskName = TaskName t, Category = Category t, Duration = Duration t,
      RequiredSkills = Str (RequiredSkills t), PreferredPhases = PreferredPhases t,
      MaxConcurrent = MaxConcurrent t\<rparr>"

definition holdsString :: "dynamic \<Rightarrow> bool" where
  "holdsString x = (case x of Str _ \<Rightarrow> True | Num _ \<Rightarrow> False | Undefined \<Rightarrow> False)"

text \<open>What the checks that run before \<open>validateSkillCoverage\<close> have pushed when it is
  called.\<close>

definition errorsBeforeSkillCoverage ::
  "Client list \<Rightarrow> dynamic WorkerRow list \<Rightarrow> dynamic TaskRow list \<Rightarrow> ValidationError list" where
  "errorsBeforeSkillCoverage cs ws ts =
     validateMissingColumns cs
     @ validateDuplicateIDs cs ws ts
     @ concat (map (\<lambda>w. projr (malformedListsOf w)) ws)
     @ validateOutOfRangeValues cs ts
     @ concat (map (\<lambda>c. projr (brokenJSONOf c)) cs)
     @ validateUnknownReferences cs ts
     @ concat (map (\<lambda>w. projr (overloadedOf w)) ws)"

subsection \<open>What the properties of the validator are stated with\<close>


definition entityName :: "entity \<Rightarrow> string" where
  "entityName ent = (case ent of client \<Rightarrow> ''client'' | worker \<Rightarrow> ''worker'' | task \<Rightarrow> ''task'')"



definition duplicateId :: "entity \<Rightarrow> string \<Rightarrow> string" where
  \<comment> \<open>the template \<open>duplicate-<entity>-<ID>\<close> of the three loops\<close>
  "duplicateId ent i = ''duplicate-'' @ entityName ent @ ''-'' @ i"





section \<open>The text-rule compiler (\<open>convertToRule\<close> of \<open>src/lib/ai-engine.ts\<close>)\<close>

datatype ruleType = coRun | slotRestriction | loadLimit | phaseWindow | patternMatch | precedenceOverride

text \<open>\<open>parameters: Record<string, any>\<close>: the keys with their values, in the order the
  object literal lists them.\<close>

datatype paramValue = PStrings "string list" | PNumber int | PString string

record BusinessRule =
  r_id :: string
  r_type :: ruleType
  r_name :: string
  r_description :: string
  r_parameters :: "(string \<times> paramValue) list"
  r_priority :: nat
  r_active :: bool

subsection \<open>The three regular expressions\<close>

text \<open>
  \<open>String.prototype.match\<close> with a regular expression without the \<open>g\<close> flag tries the
  positions of the text from the left and, at each position, the alternatives of the
  expression in their order: a greedy quantifier takes the most it can first and gives back
  one at a time, a lazy one takes the least first. Each matcher returns the text of the
  capture group 1 of the first match, or \<open>None\<close> for \<open>null\<close>. The text they get is lower case
  already, so the flag \<open>i\<close> changes nothing for the literal letters.
\<close>

definition isAlnum :: "char \<Rightarrow> bool" where
  "isAlnum c \<longleftrightarrow>
     (let n = (of_char c :: nat)
      in (97 \<le> n \<and> n \<le> 122) \<or> (65 \<le> n \<and> n \<le> 90) \<or> (48 \<le> n \<and> n \<le> 57))"

definition isTaskIdChar :: "char \<Rightarrow> bool" where
  \<comment> \<open>the class \<open>[a-zA-Z0-9,\s]\<close>\<close>
  "isTaskIdChar c \<longleftrightarrow> isAlnum c \<or> c = CHR '','' \<or> isWhiteSpace c"

text \<open>\<open>\s*([a-zA-Z0-9,\s]+)\<close> on \<open>r\<close>, the white space taking \<open>k\<close> characters first, then
  \<open>k - 1\<close>, down to none.\<close>

fun captureAfterSpace :: "nat \<Rightarrow> string \<Rightarrow> string option" where
  "captureAfterSpace 0 r =
     (if takeWhile isTaskIdChar r \<noteq> [] then Some (takeWhile isTaskIdChar r) else None)"
| "captureAfterSpace (Suc k) r =
     (if takeWhile isTaskIdChar (drop (Suc k) r) \<noteq> []
      then Some (takeWhile isTaskIdChar (drop (Suc k) r))
      else captureAfterSpace k r)"

definition spaceThenCapture :: "string \<Rightarrow> string option" where
  "spaceThenCapture r = captureAfterSpace (length (takeWhile isWhiteSpace r)) r"

text \<open>\<open>[s]?\s*([a-zA-Z0-9,\s]+)\<close> on what follows \<open>task\<close>: with the \<open>s\<close> first, then
  without it.\<close>

definition afterTask :: "string \<Rightarrow> string option" where
  "afterTask r =
     (case (case r of
              c # cs \<Rightarrow> if c = CHR ''s'' then spaceThenCapture cs else None
            | [] \<Rightarrow> None) of
        Some cap \<Rightarrow> Some cap
      | None \<Rightarrow> spaceThenCapture r)"

fun taskPattern :: "string \<Rightarrow> string option" where
  \<comment> \<open>\<open>/task[s]?\s*([a-zA-Z0-9,\s]+)/i\<close>\<close>
  "taskPattern [] = None"
| "taskPattern (c # cs) =
     (case (if startsWith (c # cs) ''task'' then afterTask (drop 4 (c # cs)) else None) of
        Some cap \<Rightarrow> Some cap
      | None \<Rightarrow> taskPattern cs)"

definition isLineTerminator :: "char \<Rightarrow> bool" where
  \<comment> \<open>what \<open>.\<close> does not match, among the code units below 256\<close>
  "isLineTerminator c \<longleftrightarrow> c = CHR 0x0A \<or> c = CHR 0x0D"

text \<open>\<open>.*?tasks?\<close>: skip as few characters as possible, none of them a line terminator,
  up to a \<open>task\<close>.\<close>

fun lazyThenTask :: "string \<Rightarrow> bool" where
  "lazyThenTask [] = False"
| "lazyThenTask (c # cs) =
     (startsWith (c # cs) ''task'' \<or> (\<not> isLineTerminator c \<and> lazyThenTask cs))"

text \<open>\<open>(\d+).*?tasks?\<close> at a position: the digits take \<open>k\<close> characters first, then
  \<open>k - 1\<close>, down to one.\<close>

fun digitsThenTask :: "nat \<Rightarrow> string \<Rightarrow> string option" where
  "digitsThenTask 0 s = None"
| "digitsThenTask (Suc k) s =
     (if lazyThenTask (drop (Suc k) s) then Some (take (Suc k) s) else digitsThenTask k s)"

fun limitPattern :: "string \<Rightarrow> string option" where
  \<comment> \<open>\<open>/(\d+).*?tasks?/i\<close>\<close>
  "limitPattern [] = None"
| "limitPattern (c # cs) =
     (case digitsThenTask (length (takeWhile isDigit (c # cs))) (c # cs) of
        Some cap \<Rightarrow> Some cap
      | None \<Rightarrow> limitPattern cs)"

text \<open>\<open>\d+(?:-\d+)?\<close>: nothing follows the group in the expression, so the first, greedy
  attempt is the match.\<close>

definition phaseRange :: "string \<Rightarrow> string option" where
  "phaseRange r =
     (let d = takeWhile isDigit r; r1 = dropWhile isDigit r
      in if d = [] then None
         else (case r1 of
                 m # r2 \<Rightarrow>
                   if m = CHR ''-'' \<and> takeWhile isDigit r2 \<noteq> []
                   then Some (d @ m # takeWhile isDigit r2)
                   else Some d
               | [] \<Rightarrow> Some d))"

text \<open>\<open>\d+(?:,\d+)*\]\<close> after the opening bracket, read character by character:
  \<open>inNumber\<close> says that a digit has just been read. The bracket closes only after a digit,
  and giving back a digit or a group leaves a digit or a comma where the expression wants
  the bracket, so no other attempt matches.\<close>

fun phaseListBody :: "bool \<Rightarrow> string \<Rightarrow> string option" where
  "phaseListBody inNumber [] = None"
| "phaseListBody inNumber (c # cs) =
     (if isDigit c then map_option ((#) c) (phaseListBody True cs)
      else if inNumber \<and> c = CHR '','' then map_option ((#) c) (phaseListBody False cs)
      else if inNumber \<and> c = CHR '']'' then Some [c]
      else None)"

definition phaseList :: "string \<Rightarrow> string option" where
  "phaseList r =
     (case r of
        c # cs \<Rightarrow> if c = CHR ''['' then map_option ((#) c) (phaseListBody False cs) else None
      | [] \<Rightarrow> None)"

text \<open>\<open>[s]?\s*(...)\<close> on what follows \<open>phase\<close>. The group starts with a digit or a
  bracket, so giving back the \<open>s\<close> or a white space cannot make it match.\<close>

definition afterPhase :: "string \<Rightarrow> string option" where
  "afterPhase r =
     (let r1 = (case r of c # cs \<Rightarrow> if c = CHR ''s'' then cs else r | [] \<Rightarrow> r);
          r2 = dropWhile isWhiteSpace r1
      in case phaseRange r2 of Some cap \<Rightarrow> Some cap | None \<Rightarrow> phaseList r2)"

fun phasePattern :: "string \<Rightarrow> string option" where
  \<comment> \<open>\<open>/phase[s]?\s*(\d+(?:-\d+)?|\[\d+(?:,\d+)*\])/i\<close>\<close>
  "phasePattern [] = None"
| "phasePattern (c # cs) =
     (case (if startsWith (c # cs) ''phase'' then afterPhase (drop 5 (c # cs)) else None) of
        Some cap \<Rightarrow> Some cap
      | None \<Rightarrow> phasePattern cs)"

subsection \<open>\<open>convertToRule\<close>\<close>

text \<open>\<open>now\<close> is what \<open>Date.now()\<close> returns in the call: the milliseconds of the clock.
  \<open>parseInt\<close> of the captured digits is exact below \<open>2 ^ 53\<close>.\<close>

definition coRunPhrase :: "string \<Rightarrow> bool" where
  "coRunPhrase rule \<longleftrightarrow>
     str_includes rule ''together'' \<or> str_includes rule ''same time'' \<or> str_includes rule ''co-run''"

definition loadLimitPhrase :: "string \<Rightarrow> bool" where
  "loadLimitPhrase rule \<longleftrightarrow>
     str_includes rule ''limit'' \<or> str_includes rule ''maximum'' \<or> str_includes rule ''no more than''"

definition phaseWindowPhrase :: "string \<Rightarrow> bool" where
  "phaseWindowPhrase rule \<longleftrightarrow>
     str_includes rule ''phase'' \<and> (str_includes rule ''only'' \<or> str_includes rule ''must'')"

definition coRunRule :: "nat \<Rightarrow> string \<Rightarrow> BusinessRule" where
  "coRunRule now cap =
     (let taskIds = splitTrim cap
      in \<lparr>r_id = ''corun-'' @ showNat now, r_type = coRun, r_name = ''Co-run Tasks'',
           r_description = ''Tasks '' @ join '', '' taskIds @ '' must run together'',
           r_parameters = [(''tasks'', PStrings taskIds)],
           r_priority = 1, r_active = True\<rparr>)"

definition loadLimitRule :: "nat \<Rightarrow> string \<Rightarrow> BusinessRule" where
  "loadLimitRule now cap =
     (let maxTasks = parseInt cap
      in \<lparr>r_id = ''loadlimit-'' @ showNat now, r_type = loadLimit, r_name = ''Load Limit'',
           r_description = ''Maximum '' @ showNat maxTasks @ '' tasks per phase'',
           r_parameters = [(''maxSlotsPerPhase'', PNumber (int maxTasks))],
           r_priority = 1, r_active = True\<rparr>)"

definition phaseWindowRule :: "nat \<Rightarrow> string \<Rightarrow> BusinessRule" where
  "phaseWindowRule now phaseSpec =
     \<lparr>r_id = ''phasewindow-'' @ showNat now, r_type = phaseWindow, r_name = ''Phase Window'',
      r_description = ''Restrict to phases '' @ phaseSpec,
      r_parameters = [(''allowedPhases'', PString phaseSpec)],
      r_priority = 1, r_active = True\<rparr>"

definition convertToRule :: "nat \<Rightarrow> string \<Rightarrow> BusinessRule option" where
  "convertToRule now naturalLanguageRule =
     (let rule = toLowerCase naturalLanguageRule
      in case (if coRunPhrase rule then taskPattern rule else None) of
           Some cap \<Rightarrow> Some (coRunRule now cap)
         | None \<Rightarrow>
             (case (if loadLimitPhrase rule then limitPattern rule else None) of
                Some cap \<Rightarrow> Some (loadLimitRule now cap)
              | None \<Rightarrow>
                  (case (if phaseWindowPhrase rule then phasePattern rule else None) of
                     Some phaseSpec \<Rightarrow> Some (phaseWindowRule now phaseSpec)
                   | None \<Rightarrow> None)))"

section \<open>The pattern-inference engine (\<open>generateRuleRecommendations\<close> of \<open>src/lib/ai-engine.ts\<close>)\<close>

























section \<open>The three regular expressions, read as languages\<close>




definition isNumeral :: "string \<Rightarrow> bool" where
  \<comment> \<open>\<open>\d+\<close>\<close>
  "isNumeral ds \<longleftrightarrow> ds \<noteq> [] \<and> list_all isDigit ds"

definition phaseSpec :: "string \<Rightarrow> bool" where
  \<comment> \<open>\<open>\d+(?:-\d+)?|\[\d+(?:,\d+)*\]\<close>\<close>
  "phaseSpec spec \<longleftrightarrow>
     isNumeral spec
     \<or> (\<exists>d1 d2. spec = d1 @ ''-'' @ d2 \<and> isNumeral d1 \<and> isNumeral d2)
     \<or> (\<exists>d ns. spec = ''['' @ d @ concat (map (\<lambda>n. '','' @ n) ns) @ '']''
           \<and> isNumeral d \<and> list_all isNumeral ns)"


section \<open>Sample rows\<close>





text \<open>A worker row without the property \<open>Skills\<close>, and a client without a name.\<close>

definition w_no_skills :: "dynamic WorkerRow" where
  "w_no_skills = \<lparr>WorkerID = ''W001'', WorkerName = ''Alice Johnson'', Skills = Undefined,
     AvailableSlots = ''[1,2,3]'', MaxLoadPerPhase = 3, WorkerGroup = ''Frontend'',
     QualificationLevel = 5\<rparr>"

definition c_no_name :: Client where
  "c_no_name = \<lparr>ClientID = ''C004'', ClientName = [], PriorityLevel = 3,
     RequestedTaskIDs = [], GroupTag = ''Retail'', AttributesJSON = []\<rparr>"



definition c_broken :: Client where
  "c_broken = \<lparr>ClientID = ''C003'', ClientName = ''StartupX'', PriorityLevel = 2,
     RequestedTaskIDs = [], GroupTag = ''Startup'', AttributesJSON = ''{stage: Series A''\<rparr>"





section \<open>Properties of the validator\<close>

subsection \<open>Every check returns\<close>

lemma forEach_returns:
  assumes "\<And>x. x \<in> set xs \<Longrightarrow> \<exists>es. f x = Inr es"
  shows "forEach f xs = Inr (concat (map (\<lambda>x. projr (f x)) xs))"
  using assms
proof (induction xs)
  case Nil
  show ?case by simp
next
  case (Cons x xs)
  from Cons.prems obtain es where "f x = Inr es" by auto
  moreover have "forEach f xs = Inr (concat (map (\<lambda>x. projr (f x)) xs))"
    using Cons by simp
  ultimately show ?case by simp
qed

lemma malformedListsOf_returns:
  "malformedListsOf w =
     Inr (case JSON_parse (AvailableSlots w) of
            Inl _ \<Rightarrow> [invalidSlots w]
          | Inr slots \<Rightarrow> if isNumberArray slots then [] else [malformedSlots w])"
  by (simp add: malformedListsOf_def try_catch_def split: sum.splits)

lemma overloadedOf_returns:
  "overloadedOf w =
     Inr (case JSON_parse (AvailableSlots w) of
            Inr (JArray xs) \<Rightarrow>
              if int (length xs) < MaxLoadPerPhase w then [overloadedWarning w (length xs)] else []
          | _ \<Rightarrow> [])"
  by (simp add: overloadedOf_def try_catch_def split: sum.splits json.splits)

lemma brokenJSONOf_returns: "\<exists>es. brokenJSONOf c = Inr es"
  by (simp add: brokenJSONOf_def try_catch_def split: sum.splits)

lemma validateMalformedLists_returns:
  "validateMalformedLists ws = Inr (concat (map (\<lambda>w. projr (malformedListsOf w)) ws))"
  unfolding validateMalformedLists_def
  by (rule forEach_returns) (simp add: malformedListsOf_returns)

lemma validateOverloadedWorkers_returns:
  "validateOverloadedWorkers ws = Inr (concat (map (\<lambda>w. projr (overloadedOf w)) ws))"
  unfolding validateOverloadedWorkers_def
  by (rule forEach_returns) (simp add: overloadedOf_returns)

lemma validateBrokenJSON_returns:
  "validateBrokenJSON cs = Inr (concat (map (\<lambda>c. projr (brokenJSONOf c)) cs))"
  unfolding validateBrokenJSON_def
  by (rule forEach_returns) (rule brokenJSONOf_returns)

lemma validateAll_returns: "validateAll cs ws ts = Inr (allErrors cs ws ts)"
  by (simp add: validateAll_def allErrors_def pushAll_def validateMalformedLists_returns
      validateOverloadedWorkers_returns validateBrokenJSON_returns
      validateCircularCoRuns_def validatePhaseSlotSaturation_def validateConflictingRules_def)

subsection \<open>The identifiers each check gives\<close>












subsection \<open>Duplicate IDs\<close>








lemma duplicateId_prefix: "startsWith (duplicateId ent i) ''duplicate-''"
  by (simp add: duplicateId_def)










subsection \<open>Selecting the errors of one check by the head of their identifier\<close>


lemma startsWith_append: "startsWith (p @ s) p"
  by (induction p) auto








subsection \<open>Workers whose slots do not parse\<close>

















subsection \<open>Unknown task references\<close>








subsection \<open>Exceptions that leave the validator\<close>

lemma pushSpread_thrown: "foldl (pushSpread m) (Inl e) checks = Inl e"
  by (induction checks) (simp_all add: pushSpread_def)

lemma forEach_throws:
  assumes "\<exists>x\<in>set xs. f x = Inl e" and "\<And>x e'. x \<in> set xs \<Longrightarrow> f x = Inl e' \<Longrightarrow> e' = e"
  shows "forEach f xs = Inl e"
  using assms
proof (induction xs)
  case Nil
  then show ?case by simp
next
  case (Cons x xs)
  show ?case
  proof (cases "f x")
    case (Inl e')
    with Cons.prems(2) [of x e'] show ?thesis by simp
  next
    case (Inr pushed)
    with Cons.prems(1) have "\<exists>x\<in>set xs. f x = Inl e" by auto
    then have "forEach f xs = Inl e" using Cons.prems(2) by (intro Cons.IH) auto
    with Inr show ?thesis by simp
  qed
qed

lemma splitSkills_throws: "\<not> holdsString x \<Longrightarrow> splitSkills x = Inl TypeError"
  by (cases x) (simp_all add: holdsString_def splitSkills_def)

lemma splitSkills_only_TypeError: "splitSkills x = Inl e \<Longrightarrow> e = TypeError"
  by (cases x) (simp_all add: splitSkills_def)

lemma addWorkerSkills_throws:
  "\<exists>w\<in>set ws. \<not> holdsString (Skills w) \<Longrightarrow> addWorkerSkills ws acc = Inl TypeError"
proof (induction ws arbitrary: acc)
  case Nil
  then show ?case by simp
next
  case (Cons w ws)
  show ?case
  proof (cases "splitSkills (Skills w)")
    case (Inl e)
    then show ?thesis using splitSkills_only_TypeError [OF Inl] by simp
  next
    case (Inr skills)
    then have "holdsString (Skills w)" using splitSkills_throws [of "Skills w"] by auto
    with Cons.prems have "\<exists>w\<in>set ws. \<not> holdsString (Skills w)" by auto
    with Cons.IH Inr show ?thesis by simp
  qed
qed

lemma addWorkerSkills_only_TypeError: "addWorkerSkills ws acc = Inl e \<Longrightarrow> e = TypeError"
  by (induction ws arbitrary: acc) (auto split: sum.splits dest: splitSkills_only_TypeError)

lemma skillCoverageOf_only_TypeError: "skillCoverageOf S t = Inl e \<Longrightarrow> e = TypeError"
  by (auto simp: skillCoverageOf_def split: sum.splits dest: splitSkills_only_TypeError)

lemma validateSkillCoverageDyn_throws:
  assumes "(\<exists>w\<in>set ws. \<not> holdsString (Skills w)) \<or> (\<exists>t\<in>set ts. \<not> holdsString (RequiredSkills t))"
  shows "validateSkillCoverageDyn ws ts = Inl TypeError"
proof (cases "addWorkerSkills ws {}")
  case (Inl e)
  with addWorkerSkills_only_TypeError [OF Inl] show ?thesis
    by (simp add: validateSkillCoverageDyn_def)
next
  case (Inr S)
  with addWorkerSkills_throws [of ws "{}"] assms
  obtain t where t: "t \<in> set ts" "\<not> holdsString (RequiredSkills t)" by auto
  then have "skillCoverageOf S t = Inl TypeError"
    by (simp add: skillCoverageOf_def splitSkills_throws)
  with t have "forEach (skillCoverageOf S) ts = Inl TypeError"
    by (intro forEach_throws) (auto dest: skillCoverageOf_only_TypeError)
  with Inr show ?thesis by (simp add: validateSkillCoverageDyn_def)
qed

lemma validateAllDyn_first_push:
  assumes "m < length (validateMissingColumns cs)"
  shows "validateAllDyn m cs ws ts = Inl RangeError"
  using assms by (simp add: validateAllDyn_def pushSpread_def)

lemma validateAllDyn_TypeError:
  assumes "(\<exists>w\<in>set ws. \<not> holdsString (Skills w)) \<or> (\<exists>t\<in>set ts. \<not> holdsString (RequiredSkills t))"
    and "length (errorsBeforeSkillCoverage cs ws ts) \<le> m"
  shows "validateAllDyn m cs ws ts = Inl TypeError"
  using assms(2)
  by (simp add: validateAllDyn_def pushSpread_def validateSkillCoverageDyn_throws [OF assms(1)]
      errorsBeforeSkillCoverage_def validateMalformedLists_returns
      validateOverloadedWorkers_returns validateBrokenJSON_returns
      validateCircularCoRuns_def validatePhaseSlotSaturation_def validateConflictingRules_def)

text \<open>On rows of the interfaces the two skill checks return what the checks of the typed
  reading return, and the other checks do not read the two fields.\<close>

lemma workerRow_fields:
  "WorkerID (workerRow w) = WorkerID w" "Skills (workerRow w) = Str (Skills w)"
  "AvailableSlots (workerRow w) = AvailableSlots w"
  "MaxLoadPerPhase (workerRow w) = MaxLoadPerPhase w"
  by (simp_all add: workerRow_def)

lemma taskRow_fields:
  "TaskID (taskRow t) = TaskID t" "Duration (taskRow t) = Duration t"
  "RequiredSkills (taskRow t) = Str (RequiredSkills t)"
  "MaxConcurrent (taskRow t) = MaxConcurrent t"
  by (simp_all add: taskRow_def)

lemma splitSkills_Str: "splitSkills (Str s) = Inr (splitTrim s)"
  by (simp add: splitSkills_def)

lemma addWorkerSkills_typed:
  "addWorkerSkills (map workerRow ws) acc
     = Inr (acc \<union> \<Union> (set (map (\<lambda>w. set (splitTrim (Skills w))) ws)))"
  by (induction ws arbitrary: acc) (auto simp: workerRow_fields splitSkills_Str)

lemma validateSkillCoverageDyn_typed:
  "validateSkillCoverageDyn (map workerRow ws) (map taskRow ts) = Inr (validateSkillCoverage ws ts)"
proof -
  have "forEach (skillCoverageOf S) (map taskRow ts)
          = Inr (concat (map (\<lambda>x. projr (skillCoverageOf S x)) (map taskRow ts)))" for S
    by (rule forEach_returns) (auto simp: skillCoverageOf_def taskRow_fields splitSkills_Str)
  then show ?thesis
    by (simp add: validateSkillCoverageDyn_def addWorkerSkills_typed validateSkillCoverage_def
        skillCoverageOf_def taskRow_fields splitSkills_Str comp_def cong: if_cong)
qed

lemma qualifiedWorkersDyn_typed:
  "qualifiedWorkersDyn (map workerRow ws) required
     = Inr (map workerRow (filter (\<lambda>w. list_all (\<lambda>skill. skill \<in> set (splitTrim (Skills w))) required) ws))"
  unfolding qualifiedWorkersDyn_def
  by (induction ws) (simp_all add: workerRow_fields splitSkills_Str)

lemma validateMaxConcurrencyDyn_typed:
  "validateMaxConcurrencyDyn (map workerRow ws) (map taskRow ts) = Inr (validateMaxConcurrency ws ts)"
proof -
  have "forEach (maxConcurrencyOf (map workerRow ws)) (map taskRow ts)
          = Inr (concat (map (\<lambda>x. projr (maxConcurrencyOf (map workerRow ws) x)) (map taskRow ts)))"
    by (rule forEach_returns)
      (auto simp: maxConcurrencyOf_def taskRow_fields splitSkills_Str qualifiedWorkersDyn_typed)
  then show ?thesis
    by (simp add: validateMaxConcurrencyDyn_def validateMaxConcurrency_def maxConcurrencyOf_def
        taskRow_fields splitSkills_Str qualifiedWorkersDyn_typed qualifiedWorkers_def comp_def
        Let_def cong: if_cong)
qed

lemma checks_on_rows:
  "validateDuplicateIDs cs (map workerRow ws) (map taskRow ts) = validateDuplicateIDs cs ws ts"
  "validateOutOfRangeValues cs (map taskRow ts) = validateOutOfRangeValues cs ts"
  "validateUnknownReferences cs (map taskRow ts) = validateUnknownReferences cs ts"
  "malformedListsOf (workerRow w) = malformedListsOf w"
  "overloadedOf (workerRow w) = overloadedOf w"
  by (simp_all add: validateDuplicateIDs_def validateOutOfRangeValues_def
      validateUnknownReferences_def malformedListsOf_def overloadedOf_def malformedSlots_def
      invalidSlots_def overloadedWarning_def workerRow_fields taskRow_fields comp_def
      cong: if_cong sum.case_cong json.case_cong)

lemma validateAllDyn_typed:
  assumes "length (allErrors cs ws ts) \<le> m"
  shows "validateAllDyn m cs (map workerRow ws) (map taskRow ts) = validateAll cs ws ts"
  using assms
  by (simp add: validateAll_returns validateAllDyn_def pushSpread_def allErrors_def
      validateMalformedLists_returns validateOverloadedWorkers_returns validateBrokenJSON_returns
      validateSkillCoverageDyn_typed validateMaxConcurrencyDyn_typed checks_on_rows comp_def
      validateCircularCoRuns_def validatePhaseSlotSaturation_def validateConflictingRules_def)

lemma validateMissingColumns_replicate:
  "length (validateMissingColumns (replicate n c)) = n * length (validateMissingColumns [c])"
  by (induction n) (simp_all add: validateMissingColumns_def)

lemma validateMissingColumns_c_no_name: "length (validateMissingColumns [c_no_name]) = 1"
  by (simp add: validateMissingColumns_def requiredClientFields_def clientFieldMissing_def
      c_no_name_def)

text \<open>
  C3. \<open>validateAll\<close> does not always return: an exception leaves it on two kinds of input.
  A check that returns more errors than the engine takes as arguments of one call makes
  \<open>errors.push(...check)\<close> throw a \<open>RangeError\<close>; for the first check this needs only
  clients with a missing field, all of them rows of the interface. A worker whose \<open>Skills\<close>
  or a task whose \<open>RequiredSkills\<close> is not a string makes \<open>validateSkillCoverage\<close> throw a
  \<open>TypeError\<close>, at \<open>split\<close>, when the checks before it have stayed within the limit; no
  \<open>try\<close> stands around it, the rows before the offending one and the checks already run
  are lost with the result. On rows of the interfaces and within the limit \<open>validateAll\<close>
  returns (\<open>validateAllDyn_typed\<close>).
\<close>

theorem validateAll_throws:
  "(maxArguments < length (validateMissingColumns clients)
      \<longrightarrow> validateAllDyn maxArguments clients workers tasks = Inl RangeError)
   \<and> (((\<exists>w\<in>set workers. \<not> holdsString (Skills w))
          \<or> (\<exists>t\<in>set tasks. \<not> holdsString (RequiredSkills t)))
        \<and> length (errorsBeforeSkillCoverage clients workers tasks) \<le> maxArguments
      \<longrightarrow> validateAllDyn maxArguments clients workers tasks = Inl TypeError)"
  using validateAllDyn_first_push [of maxArguments clients workers tasks]
    validateAllDyn_TypeError [of workers tasks clients maxArguments]
  by blast

theorem validateAll_throws_witness:
  "129999 < length (validateMissingColumns (replicate 130000 c_no_name))
   \<and> validateAllDyn 129999 (replicate 130000 c_no_name) [] [] = Inl RangeError
   \<and> \<not> holdsString (Skills w_no_skills)
   \<and> length (errorsBeforeSkillCoverage [] [w_no_skills] []) \<le> 129999
   \<and> validateAllDyn 129999 [] [w_no_skills] [] = Inl TypeError"
proof -
  have n: "length (validateMissingColumns (replicate 130000 c_no_name)) = 130000"
    unfolding validateMissingColumns_replicate validateMissingColumns_c_no_name by simp
  have 1: "129999 < length (validateMissingColumns (replicate 130000 c_no_name))"
    unfolding n by simp
  have 2: "\<not> holdsString (Skills w_no_skills)"
    by (simp add: holdsString_def w_no_skills_def)
  have p: "JSON_parse ''[1,2,3]'' = Inr (JArray [JNumber ''1'', JNumber ''2'', JNumber ''3''])"
    by code_simp
  have "errorsBeforeSkillCoverage [] [w_no_skills] [] = []"
    by (simp add: errorsBeforeSkillCoverage_def validateMissingColumns_def
        validateDuplicateIDs_def validateOutOfRangeValues_def validateUnknownReferences_def
        malformedListsOf_returns overloadedOf_returns w_no_skills_def p isNumberArray_def
        isNumber_def)
  then have 3: "length (errorsBeforeSkillCoverage [] [w_no_skills] []) \<le> 129999"
    by simp
  from validateAll_throws [of 129999 "replicate 130000 c_no_name" "[]" "[]"] 1
  have 4: "validateAllDyn 129999 (replicate 130000 c_no_name) [] [] = Inl RangeError"
    by blast
  from validateAll_throws [of 129999 "[]" "[w_no_skills]" "[]"] 2 3
  have 5: "validateAllDyn 129999 [] [w_no_skills] [] = Inl TypeError"
    by simp
  from 1 4 2 3 5 show ?thesis by (intro conjI)
qed

section \<open>Properties of the text-rule compiler\<close>

lemma parseDigits_snoc:
  "parseDigits acc (ds @ [c]) = 10 * parseDigits acc ds + (of_char c - 48)"
  by (induction ds arbitrary: acc) simp_all

lemma of_char_digitChar: "d < 10 \<Longrightarrow> (of_char (digitChar d) :: nat) = 48 + d"
  by (simp add: digitChar_def)

lemma parseDigits_showNat: "parseDigits 0 (showNat n) = n"
proof (induction n rule: showNat.induct)
  case (1 n)
  show ?case
  proof (cases "n < 10")
    case True
    then show ?thesis by (subst showNat.simps) (simp add: of_char_digitChar)
  next
    case False
    then have "parseDigits 0 (showNat n) = 10 * (n div 10) + n mod 10"
      using "1.IH" by (subst showNat.simps) (simp add: parseDigits_snoc of_char_digitChar)
    then show ?thesis by simp
  qed
qed

lemma showNat_inject: "showNat m = showNat n \<longleftrightarrow> m = n"
proof
  assume "showNat m = showNat n"
  then have "parseDigits 0 (showNat m) = parseDigits 0 (showNat n)" by (rule arg_cong)
  then show "m = n" by (simp only: parseDigits_showNat)
next
  assume "m = n"
  then show "showNat m = showNat n" by (rule arg_cong)
qed

subsection \<open>The matchers accept the languages of their expressions\<close>

lemma startsWith_iff: "startsWith s p \<longleftrightarrow> (\<exists>v. s = p @ v)"
  by (induction s p rule: startsWith.induct) auto

lemma str_includes_iff: "str_includes s sub \<longleftrightarrow> (\<exists>u v. s = u @ sub @ v)"
proof (induction s)
  case Nil
  show ?case by (auto simp: startsWith_iff)
next
  case (Cons c cs)
  show ?case
  proof
    assume "str_includes (c # cs) sub"
    then consider "startsWith (c # cs) sub" | "str_includes cs sub" by auto
    then show "\<exists>u v. c # cs = u @ sub @ v"
    proof cases
      case 1
      then obtain v where "c # cs = [] @ sub @ v" by (auto simp: startsWith_iff)
      then show ?thesis by blast
    next
      case 2
      with Cons obtain u v where "cs = u @ sub @ v" by blast
      then have "c # cs = (c # u) @ sub @ v" by simp
      then show ?thesis by blast
    qed
  next
    assume "\<exists>u v. c # cs = u @ sub @ v"
    then obtain u v where e: "c # cs = u @ sub @ v" by blast
    show "str_includes (c # cs) sub"
    proof (cases u)
      case Nil
      with e have "startsWith (c # cs) sub" unfolding startsWith_iff by auto
      then show ?thesis by simp
    next
      case (Cons a u')
      with e have "cs = u' @ sub @ v" by simp
      with Cons.IH show ?thesis by auto
    qed
  qed
qed













lemma digit_no_terminator: "isDigit c \<Longrightarrow> \<not> isLineTerminator c"
  by (auto simp: isDigit_def isLineTerminator_def)





lemma isNumeral_Cons: "isNumeral (d # ds) \<longleftrightarrow> isDigit d \<and> list_all isDigit ds"
  by (simp add: isNumeral_def)











subsection \<open>The order of the categories\<close>

lemma convertToRule_cases:
  "convertToRule now text =
     (let rule = toLowerCase text
      in if coRunPhrase rule \<and> taskPattern rule \<noteq> None
           then Some (coRunRule now (the (taskPattern rule)))
         else if loadLimitPhrase rule \<and> limitPattern rule \<noteq> None
           then Some (loadLimitRule now (the (limitPattern rule)))
         else if phaseWindowPhrase rule \<and> phasePattern rule \<noteq> None
           then Some (phaseWindowRule now (the (phasePattern rule)))
         else None)"
  by (auto simp: convertToRule_def Let_def split: option.splits)





subsection \<open>The clock in the identifier\<close>

lemma digitChar_table:
  "digitChar 0 = CHR ''0''" "digitChar 1 = CHR ''1''" "digitChar 2 = CHR ''2''"
  "digitChar 3 = CHR ''3''" "digitChar 4 = CHR ''4''" "digitChar 5 = CHR ''5''"
  "digitChar 6 = CHR ''6''" "digitChar 7 = CHR ''7''" "digitChar 8 = CHR ''8''"
  "digitChar 9 = CHR ''9''" "digitChar (Suc 0) = CHR ''1''"
  by code_simp+

lemma rule_without_id:
  "coRunRule now cap\<lparr>r_id := []\<rparr> = coRunRule now' cap\<lparr>r_id := []\<rparr>"
  "loadLimitRule now cap\<lparr>r_id := []\<rparr> = loadLimitRule now' cap\<lparr>r_id := []\<rparr>"
  "phaseWindowRule now cap\<lparr>r_id := []\<rparr> = phaseWindowRule now' cap\<lparr>r_id := []\<rparr>"
  by (simp_all add: coRunRule_def loadLimitRule_def phaseWindowRule_def Let_def)

lemma rule_eq_iff:
  "coRunRule now cap = coRunRule now' cap \<longleftrightarrow> now = now'"
  "loadLimitRule now cap = loadLimitRule now' cap \<longleftrightarrow> now = now'"
  "phaseWindowRule now cap = phaseWindowRule now' cap \<longleftrightarrow> now = now'"
  by (auto simp: coRunRule_def loadLimitRule_def phaseWindowRule_def Let_def showNat_inject)

lemma convertToRule_shape:
  "(\<forall>n. convertToRule n txt = None)
   \<or> (\<exists>cap. \<forall>n. convertToRule n txt = Some (coRunRule n cap))
   \<or> (\<exists>cap. \<forall>n. convertToRule n txt = Some (loadLimitRule n cap))
   \<or> (\<exists>cap. \<forall>n. convertToRule n txt = Some (phaseWindowRule n cap))"
proof -
  let ?rule = "toLowerCase txt"
  consider (a) "coRunPhrase ?rule \<and> taskPattern ?rule \<noteq> None"
    | (b) "\<not> (coRunPhrase ?rule \<and> taskPattern ?rule \<noteq> None)"
          "loadLimitPhrase ?rule \<and> limitPattern ?rule \<noteq> None"
    | (c) "\<not> (coRunPhrase ?rule \<and> taskPattern ?rule \<noteq> None)"
          "\<not> (loadLimitPhrase ?rule \<and> limitPattern ?rule \<noteq> None)"
          "phaseWindowPhrase ?rule \<and> phasePattern ?rule \<noteq> None"
    | (d) "\<not> (coRunPhrase ?rule \<and> taskPattern ?rule \<noteq> None)"
          "\<not> (loadLimitPhrase ?rule \<and> limitPattern ?rule \<noteq> None)"
          "\<not> (phaseWindowPhrase ?rule \<and> phasePattern ?rule \<noteq> None)"
    by blast
  then show ?thesis
  proof cases
    case a
    have "\<forall>n. convertToRule n txt = Some (coRunRule n (the (taskPattern ?rule)))"
      unfolding convertToRule_cases Let_def by (simp only: if_P [OF a] simp_thms)
    then show ?thesis by blast
  next
    case b
    have "\<forall>n. convertToRule n txt = Some (loadLimitRule n (the (limitPattern ?rule)))"
      unfolding convertToRule_cases Let_def
      by (simp only: if_not_P [OF b(1)] if_P [OF b(2)] simp_thms)
    then show ?thesis by blast
  next
    case c
    have "\<forall>n. convertToRule n txt = Some (phaseWindowRule n (the (phasePattern ?rule)))"
      unfolding convertToRule_cases Let_def
      by (simp only: if_not_P [OF c(1)] if_not_P [OF c(2)] if_P [OF c(3)] simp_thms)
    then show ?thesis by blast
  next
    case d
    have "\<forall>n. convertToRule n txt = None"
      unfolding convertToRule_cases Let_def
      by (simp only: if_not_P [OF d(1)] if_not_P [OF d(2)] if_not_P [OF d(3)] simp_thms)
    then show ?thesis by blast
  qed
qed

text \<open>
  C6, as the code has it. Two calls of \<open>convertToRule\<close> on one text agree on whether a
  rule comes back and on every field of the rule but \<open>id\<close>. The \<open>id\<close> ends in the reading
  of the clock, so the two results are equal exactly when no rule comes back or the two
  calls read the same millisecond.
\<close>

theorem convertToRule_same_up_to_clock:
  "(convertToRule now text = None \<longleftrightarrow> convertToRule now' text = None)
   \<and> map_option (\<lambda>r. r\<lparr>r_id := []\<rparr>) (convertToRule now text)
       = map_option (\<lambda>r. r\<lparr>r_id := []\<rparr>) (convertToRule now' text)
   \<and> (convertToRule now text = convertToRule now' text
        \<longleftrightarrow> now = now' \<or> convertToRule now text = None)"
  using convertToRule_shape [of "text"]
  by (elim disjE exE) (simp_all add: rule_without_id rule_eq_iff)

theorem convertToRule_same_up_to_clock_witness:
  "convertToRule 1700000000000 ''no more than 12 tasks per worker'' \<noteq> None
   \<and> map_option (\<lambda>r. r\<lparr>r_id := []\<rparr>) (convertToRule 1700000000000 ''no more than 12 tasks per worker'')
       = map_option (\<lambda>r. r\<lparr>r_id := []\<rparr>) (convertToRule 1700000000001 ''no more than 12 tasks per worker'')
   \<and> convertToRule 1700000000000 ''no more than 12 tasks per worker''
       \<noteq> convertToRule 1700000000001 ''no more than 12 tasks per worker''"
proof -
  have l: "toLowerCase ''no more than 12 tasks per worker'' = ''no more than 12 tasks per worker''"
    by code_simp
  have 1: "\<not> coRunPhrase ''no more than 12 tasks per worker''"
    by code_simp
  have 2: "loadLimitPhrase ''no more than 12 tasks per worker''"
    by code_simp
  have 3: "limitPattern ''no more than 12 tasks per worker'' = Some ''12''"
    by code_simp
  have n: "convertToRule 1700000000000 ''no more than 12 tasks per worker'' \<noteq> None"
    unfolding convertToRule_cases [of 1700000000000] Let_def l
    by (simp only: 1 2 3 option.distinct simp_thms if_True if_False)
  have d: "(1700000000000 :: nat) \<noteq> 1700000000001" by simp
  from convertToRule_same_up_to_clock
    [of 1700000000000 "''no more than 12 tasks per worker''" 1700000000001] n d
  show ?thesis by blast
qed

text \<open>
  C6, as the claim states it, fails: two calls on the text of the specification, one
  millisecond apart, return rules with different \<open>id\<close>s.
\<close>

theorem convertToRule_id_from_clock_counterexample:
  "map_option r_id (convertToRule 1700000000000 ''Tasks T001 and T002 must run together'')
     = Some ''corun-1700000000000''
   \<and> map_option r_id (convertToRule 1700000000001 ''Tasks T001 and T002 must run together'')
     = Some ''corun-1700000000001''
   \<and> convertToRule 1700000000000 ''Tasks T001 and T002 must run together''
     \<noteq> convertToRule 1700000000001 ''Tasks T001 and T002 must run together''"
proof -
  have p: "taskPattern (toLowerCase ''Tasks T001 and T002 must run together'')
             = Some ''t001 and t002 must run together''"
    by code_simp
  have c: "coRunPhrase (toLowerCase ''Tasks T001 and T002 must run together'')"
    by code_simp
  have r: "convertToRule n ''Tasks T001 and T002 must run together''
             = Some (coRunRule n ''t001 and t002 must run together'')" for n
    unfolding convertToRule_cases Let_def
    by (simp only: p c option.distinct option.sel simp_thms if_True)
  have s0: "showNat 1700000000000 = ''1700000000000''"
    by (simp add: showNat.simps digitChar_table)
  have s1: "showNat 1700000000001 = ''1700000000001''"
    by (simp add: showNat.simps digitChar_table)
  show ?thesis
    unfolding r by (simp add: coRunRule_def Let_def s0 s1)
qed

section \<open>Properties of the pattern-inference engine\<close>
























end
